theory Spec2Isabelle
  imports Complex_Main "HOL-Library.AList" "HOL-Library.Monad_Syntax"
begin

section \<open>Modelling conventions\<close>

text \<open>
  The development embeds the scoring and alerting engine of \<^verbatim>\<open>teamcoherencemonitor.py\<close>.

  \<^item> Python \<^verbatim>\<open>float\<close> values are modelled as \<^typ>\<open>real\<close>: the finite floats are reals, and
    there is no infinity and no NaN. In the scorer, the alert checks and the records the
    arithmetic is exact. In the trend analysis, where a comparison with a constant decides
    the answer, every float operation returns its exact result rounded by a function
    \<open>fl\<close>, a parameter of the model; \<open>binary64\<close> is the rounding of IEEE 754 doubles.
    Python \<^verbatim>\<open>int\<close> is \<^typ>\<open>int\<close>.
  \<^item> \<^verbatim>\<open>datetime.now()\<close> is an explicit argument \<open>now\<close> of an operation that reads the
    clock once. The trend analysis reads it several times, and takes the clock itself:
    \<open>clk k\<close> is what the reading number \<open>k\<close> of the operation returns.
  \<^item> Objects mutated in place are passed and returned explicitly. The agent table is an
    association list in insertion order, as a Python \<^verbatim>\<open>dict\<close> is.
  \<^item> \<^verbatim>\<open>str.upper()\<close> is modelled on ASCII letters; every other character is left as it is.
\<close>

section \<open>Library functions the source relies on\<close>

datatype py_error = KeyError | ValueError | TypeError | StatisticsError | OverflowError

text \<open>A naive \<^verbatim>\<open>datetime.datetime\<close>, by its calendar fields (the \<^verbatim>\<open>fold\<close> flag, which
  neither comparison nor \<^verbatim>\<open>isoformat\<close> looks at, is left out).\<close>

record datetime =
  year :: nat
  month :: nat
  day :: nat
  hour :: nat
  minute :: nat
  second :: nat
  microsecond :: nat

definition is_leap :: "nat \<Rightarrow> bool" where
  "is_leap y = (y mod 4 = 0 \<and> (y mod 100 \<noteq> 0 \<or> y mod 400 = 0))"

definition days_in_month :: "nat \<Rightarrow> nat \<Rightarrow> nat" where
  "days_in_month y m =
     (if m = 2 then (if is_leap y then 29 else 28)
      else if m = 4 \<or> m = 6 \<or> m = 9 \<or> m = 11 then 30 else 31)"

definition days_before_year :: "nat \<Rightarrow> nat" where
  "days_before_year y = (y - 1) * 365 + (y - 1) div 4 - (y - 1) div 100 + (y - 1) div 400"

definition days_before_month :: "nat \<Rightarrow> nat \<Rightarrow> nat" where
  "days_before_month y m =
     [0, 0, 31, 59, 90, 120, 151, 181, 212, 243, 273, 304, 334] ! (min m 12)
       + (if 2 < m \<and> is_leap y then 1 else 0)"

definition valid_datetime :: "datetime \<Rightarrow> bool" where
  "valid_datetime t \<longleftrightarrow>
     1 \<le> year t \<and> year t \<le> 9999 \<and> 1 \<le> month t \<and> month t \<le> 12 \<and>
     1 \<le> day t \<and> day t \<le> days_in_month (year t) (month t) \<and>
     hour t < 24 \<and> minute t < 60 \<and> second t < 60 \<and> microsecond t < 1000000"

text \<open>Seconds elapsed since the start of year 1, so that
  \<^verbatim>\<open>(a - b).total_seconds()\<close> is \<open>to_seconds a - to_seconds b\<close> and \<^verbatim>\<open>a > b\<close> is
  \<open>to_seconds a > to_seconds b\<close> on valid values.\<close>

definition to_seconds :: "datetime \<Rightarrow> real" where
  "to_seconds t =
     real (((days_before_year (year t) + days_before_month (year t) (month t) + day t) * 24
            + hour t) * 3600 + minute t * 60 + second t)
       + real (microsecond t) / 1000000"

text \<open>\<^verbatim>\<open>xs[-n:]\<close>: the last \<open>n\<close> entries, the whole list when it is shorter.\<close>

definition py_slice_last :: "nat \<Rightarrow> 'a list \<Rightarrow> 'a list" where
  "py_slice_last n xs = drop (length xs - n) xs"

text \<open>The exact mean of a non-empty list: the value of \<^verbatim>\<open>statistics.mean\<close>, before
  rounding, where the source calls it on a list it knows to be non-empty.\<close>

definition mean_of :: "real list \<Rightarrow> real" where
  "mean_of xs = sum_list xs / real (length xs)"

text \<open>\<^verbatim>\<open>min\<close> and \<^verbatim>\<open>max\<close> of a list: they raise on an empty one.\<close>

definition py_min :: "real list \<Rightarrow> py_error + real" where
  "py_min xs = (case xs of [] \<Rightarrow> Inl ValueError | x # r \<Rightarrow> Inr (foldl min x r))"

definition py_max :: "real list \<Rightarrow> py_error + real" where
  "py_max xs = (case xs of [] \<Rightarrow> Inl ValueError | x # r \<Rightarrow> Inr (foldl max x r))"

text \<open>\<^verbatim>\<open>round(x, 1)\<close>: to one decimal, a tie going to the even neighbour.\<close>

definition round_half_even :: "real \<Rightarrow> int" where
  "round_half_even y =
     (let f = \<lfloor>y\<rfloor>; d = y - of_int f
      in if d < 1 / 2 then f
         else if 1 / 2 < d then f + 1
         else if even f then f else f + 1)"

definition round1 :: "real \<Rightarrow> real" where
  "round1 x = of_int (round_half_even (x * 10)) / 10"

text \<open>The rounding of a real to the nearest IEEE 754 double, ties to the even
  significand: \<open>ilog2 x\<close> is the exponent of a positive \<open>x\<close>, the spacing of the doubles
  around \<open>x\<close> is \<open>2 powi (e - 52)\<close>, and below \<open>2 powi (- 1022)\<close> the spacing stays that of
  the subnormal numbers. A result beyond the largest double is outside the model.\<close>

function ilog2 :: "real \<Rightarrow> int" where
  "ilog2 x =
     (if x \<le> 0 then 0
      else if 2 \<le> x then ilog2 (x / 2) + 1
      else if x < 1 then ilog2 (x * 2) - 1
      else 0)"
  by pat_completeness auto
termination
proof (relation "measure (\<lambda>x. if 1 \<le> x then nat \<lfloor>x\<rfloor> else nat \<lceil>1 / x\<rceil>)", goal_cases)
  case 1
  then show ?case by simp
next
  case (2 x)
  then have "\<lfloor>x / 2\<rfloor> < \<lfloor>x\<rfloor>" by linarith
  with 2 show ?case by simp
next
  case (3 x)
  then have x: "0 < x" "x < 1" by simp_all
  show ?case
  proof (cases "1 \<le> x * 2")
    case True
    then have "\<lfloor>x * 2\<rfloor> = 1" using x by linarith
    moreover have "1 < 1 / x" using x by simp
    then have "2 \<le> \<lceil>1 / x\<rceil>" by linarith
    ultimately show ?thesis using True x by simp
  next
    case False
    then have "1 / (x * 2) \<le> 1 / x - 1" using x by (simp add: field_simps)
    then have "\<lceil>1 / (x * 2)\<rceil> \<le> \<lceil>1 / x - 1\<rceil>" by (rule ceiling_mono)
    then have "\<lceil>1 / (x * 2)\<rceil> < \<lceil>1 / x\<rceil>" by simp
    moreover have "0 < \<lceil>1 / x\<rceil>" using x by (simp add: ceiling_less_iff)
    ultimately show ?thesis using False x by simp
  qed
qed

declare ilog2.simps [simp del]

definition binary64 :: "real \<Rightarrow> real" where
  "binary64 x =
     (if x = 0 then 0
      else let e = max (ilog2 \<bar>x\<bar>) (- 1022); q = 2 powi (e - 52)
           in of_int (round_half_even (x / q)) * q)"

text \<open>Decimal text: \<open>pad w n\<close> is \<^verbatim>\<open>"%0wd" % n\<close> for \<open>n < 10 ^ w\<close>, \<open>show_nat\<close> is
  \<^verbatim>\<open>str(n)\<close>, \<open>fmt0\<close> is the format \<^verbatim>\<open>:.0f\<close>.\<close>

definition digit_char :: "nat \<Rightarrow> char" where
  "digit_char d = char_of (48 + d)"

fun pad :: "nat \<Rightarrow> nat \<Rightarrow> string" where
  "pad 0 n = []"
| "pad (Suc w) n = pad w (n div 10) @ [digit_char (n mod 10)]"

function show_nat :: "nat \<Rightarrow> string" where
  "show_nat n = (if n < 10 then [digit_char n] else show_nat (n div 10) @ [digit_char (n mod 10)])"
  by pat_completeness auto
termination
  by (relation "measure id") auto

definition fmt0 :: "real \<Rightarrow> string" where
  "fmt0 x = (if x < 0 then ''-'' else []) @ show_nat (nat (round_half_even \<bar>x\<bar>))"

definition upper_char :: "char \<Rightarrow> char" where
  "upper_char c =
     (let n = of_char c :: nat in if 97 \<le> n \<and> n \<le> 122 then char_of (n - 32) else c)"

definition upper :: "string \<Rightarrow> string" where
  "upper s = map upper_char s"

section \<open>Data classes\<close>

record AgentStatus =
  name :: string
  last_seen :: "datetime option"
  is_active :: bool
  response_latencies :: "real list"
  mentions_received :: int
  mentions_acknowledged :: int
  correct_claims :: int
  total_claims :: int
  messages_sent :: int
  errors_detected :: int

text \<open>\<^verbatim>\<open>AgentStatus(name=n)\<close>, every other field at its default.\<close>

definition new_agent :: "string \<Rightarrow> AgentStatus" where
  "new_agent n =
     \<lparr>name = n, last_seen = None, is_active = False, response_latencies = [],
      mentions_received = 0, mentions_acknowledged = 0, correct_claims = 0,
      total_claims = 0, messages_sent = 0, errors_detected = 0\<rparr>"

definition ack_rate :: "AgentStatus \<Rightarrow> real" where
  "ack_rate a =
     (if mentions_received a = 0 then 100
      else (real_of_int (mentions_acknowledged a) / real_of_int (mentions_received a)) * 100)"

definition avg_latency :: "AgentStatus \<Rightarrow> real" where
  "avg_latency a =
     (if response_latencies a = [] then 0 else mean_of (response_latencies a))"

definition context_fidelity :: "AgentStatus \<Rightarrow> real" where
  "context_fidelity a =
     (if total_claims a = 0 then 100
      else (real_of_int (correct_claims a) / real_of_int (total_claims a)) * 100)"

record Alert =
  timestamp :: datetime
  severity :: string
  agent :: "string option"
  metric :: string
  message :: string
  "value" :: real
  threshold :: real

record CoherenceSnapshot =
  timestamp :: datetime
  overall_score :: real
  agent_scores :: "(string \<times> real) list"
  active_agents :: nat
  total_agents :: nat
  alerts_active :: nat

record Thresholds =
  latency_warning :: real
  latency_critical :: real
  ack_rate_warning :: real
  ack_rate_critical :: real
  fidelity_warning :: real
  fidelity_critical :: real
  inactive_warning :: real
  inactive_critical :: real
  coherence_warning :: real
  coherence_critical :: real

definition default_thresholds :: Thresholds where
  "default_thresholds =
     \<lparr>latency_warning = 30, latency_critical = 60,
      ack_rate_warning = 80, ack_rate_critical = 60,
      fidelity_warning = 90, fidelity_critical = 70,
      inactive_warning = 120, inactive_critical = 300,
      coherence_warning = 75, coherence_critical = 50\<rparr>"

section \<open>Coherence scorer\<close>

definition score_latency :: "Thresholds \<Rightarrow> real \<Rightarrow> real" where
  "score_latency th avg =
     (if avg \<le> 0 then 100
      else if latency_critical th \<le> avg then 0
      else if avg \<le> 5 then 100
      else let range_size = latency_critical th - 5;
               score = 100 - ((avg - 5) / range_size * 100)
           in max 0 (min 100 score))"

definition score_activity :: "Thresholds \<Rightarrow> real \<Rightarrow> real" where
  "score_activity th secs =
     (if secs \<le> 0 then 100
      else if inactive_critical th \<le> secs then 0
      else if secs \<le> 30 then 100
      else let range_size = inactive_critical th - 30;
               score = 100 - ((secs - 30) / range_size * 100)
           in max 0 (min 100 score))"

definition seconds_since :: "Thresholds \<Rightarrow> datetime \<Rightarrow> AgentStatus \<Rightarrow> real" where
  "seconds_since th now a =
     (case last_seen a of
        Some t \<Rightarrow> to_seconds now - to_seconds t
      | None \<Rightarrow> inactive_critical th)"

definition calculate_agent_score :: "Thresholds \<Rightarrow> datetime \<Rightarrow> AgentStatus \<Rightarrow> real" where
  "calculate_agent_score th now a =
     (let ack_score = ack_rate a;
          latency_score = score_latency th (avg_latency a);
          fidelity_score = context_fidelity a;
          activity_score = score_activity th (seconds_since th now a);
          total = ack_score * (30 / 100) + latency_score * (25 / 100)
                  + fidelity_score * (30 / 100) + activity_score * (15 / 100)
      in round1 total)"

text \<open>The loop \<^verbatim>\<open>agent_scores[name] = ...\<close> over the table, then the mean of the values.\<close>

definition calculate_team_score ::
  "Thresholds \<Rightarrow> datetime \<Rightarrow> (string \<times> AgentStatus) list \<Rightarrow> real \<times> (string \<times> real) list" where
  "calculate_team_score th now ags =
     (if ags = [] then (100, [])
      else let agent_scores =
                 foldl (\<lambda>acc (n, a). AList.update n (calculate_agent_score th now a) acc) [] ags;
               overall = (if agent_scores \<noteq> [] then mean_of (map snd agent_scores) else 100)
           in (round1 overall, agent_scores))"

section \<open>Alert system\<close>

record AlertSystem =
  thresholds :: Thresholds
  active_alerts :: "Alert list"
  alert_history :: "Alert list"

definition new_alert_system :: "Thresholds \<Rightarrow> AlertSystem" where
  "new_alert_system th = \<lparr>thresholds = th, active_alerts = [], alert_history = []\<rparr>"

text \<open>The comprehension of \<^verbatim>\<open>clear_alerts\<close> keeps the alerts for which \<open>kept\<close> holds.\<close>

definition kept :: "string option \<Rightarrow> string option \<Rightarrow> Alert \<Rightarrow> bool" where
  "kept ag me a \<longleftrightarrow> (ag = None \<or> agent a \<noteq> ag) \<and> (me = None \<or> Some (metric a) \<noteq> me)"

definition clear_alerts :: "AlertSystem \<Rightarrow> string option \<Rightarrow> string option \<Rightarrow> int \<times> AlertSystem" where
  "clear_alerts s ag me =
     (let before = int (length (active_alerts s));
          s' = s\<lparr>active_alerts := filter (kept ag me) (active_alerts s)\<rparr>
      in (before - int (length (active_alerts s')), s'))"

definition mk_alert ::
  "datetime \<Rightarrow> string \<Rightarrow> string option \<Rightarrow> string \<Rightarrow> string \<Rightarrow> real \<Rightarrow> real \<Rightarrow> Alert" where
  "mk_alert ts sev ag me msg v thr =
     \<lparr>Alert.timestamp = ts, severity = sev, agent = ag, metric = me, message = msg,
      value = v, threshold = thr\<rparr>"

definition check_ack_rate :: "AlertSystem \<Rightarrow> datetime \<Rightarrow> AgentStatus \<Rightarrow> Alert list" where
  "check_ack_rate s now a =
     (let th = AlertSystem.thresholds s; r = ack_rate a
      in if 0 < mentions_received a then
           (if r < ack_rate_critical th then
              [mk_alert now ''CRITICAL'' (Some (name a)) ''ack_rate''
                 (name a @ '' acknowledgment rate critically low'') r (ack_rate_critical th)]
            else if r < ack_rate_warning th then
              [mk_alert now ''WARNING'' (Some (name a)) ''ack_rate''
                 (name a @ '' acknowledgment rate below threshold'') r (ack_rate_warning th)]
            else [])
         else [])"

definition check_latency :: "AlertSystem \<Rightarrow> datetime \<Rightarrow> AgentStatus \<Rightarrow> Alert list" where
  "check_latency s now a =
     (let th = AlertSystem.thresholds s; l = avg_latency a
      in if 0 < l then
           (if latency_critical th \<le> l then
              [mk_alert now ''CRITICAL'' (Some (name a)) ''latency''
                 (name a @ '' response latency critically high'') l (latency_critical th)]
            else if latency_warning th \<le> l then
              [mk_alert now ''WARNING'' (Some (name a)) ''latency''
                 (name a @ '' response latency high'') l (latency_warning th)]
            else [])
         else [])"

definition check_fidelity :: "AlertSystem \<Rightarrow> datetime \<Rightarrow> AgentStatus \<Rightarrow> Alert list" where
  "check_fidelity s now a =
     (let th = AlertSystem.thresholds s; f = context_fidelity a
      in if 0 < total_claims a then
           (if f < fidelity_critical th then
              [mk_alert now ''CRITICAL'' (Some (name a)) ''fidelity''
                 (name a @ '' context fidelity critically low'') f (fidelity_critical th)]
            else if f < fidelity_warning th then
              [mk_alert now ''WARNING'' (Some (name a)) ''fidelity''
                 (name a @ '' context fidelity below threshold'') f (fidelity_warning th)]
            else [])
         else [])"

definition check_activity :: "AlertSystem \<Rightarrow> datetime \<Rightarrow> AgentStatus \<Rightarrow> Alert list" where
  "check_activity s now a =
     (let th = AlertSystem.thresholds s
      in case last_seen a of
           None \<Rightarrow> []
         | Some t \<Rightarrow>
             (let secs = to_seconds now - to_seconds t
              in if inactive_critical th \<le> secs then
                   [mk_alert now ''CRITICAL'' (Some (name a)) ''activity''
                      (name a @ '' has been inactive for '' @ fmt0 secs @ ''s'') secs
                      (inactive_critical th)]
                 else if inactive_warning th \<le> secs then
                   [mk_alert now ''WARNING'' (Some (name a)) ''activity''
                      (name a @ '' inactive for '' @ fmt0 secs @ ''s'') secs
                      (inactive_warning th)]
                 else []))"

text \<open>The four checks of \<^verbatim>\<open>check_agent\<close> append to one list, in this order.\<close>

definition check_agent :: "AlertSystem \<Rightarrow> datetime \<Rightarrow> AgentStatus \<Rightarrow> Alert list" where
  "check_agent s now a =
     check_ack_rate s now a @ check_latency s now a @ check_fidelity s now a
       @ check_activity s now a"

definition process_alerts :: "AlertSystem \<Rightarrow> datetime \<Rightarrow> Alert list \<Rightarrow> AlertSystem" where
  "process_alerts s now new =
     (let s1 = foldl (\<lambda>s a. s\<lparr>active_alerts := active_alerts s @ [a],
                               alert_history := alert_history s @ [a]\<rparr>) s new;
          cutoff = to_seconds now - 3600;
          s2 = s1\<lparr>active_alerts :=
                    filter (\<lambda>a. cutoff < to_seconds (Alert.timestamp a)) (active_alerts s1)\<rparr>
      in if 1000 < length (alert_history s2)
         then s2\<lparr>alert_history := py_slice_last 1000 (alert_history s2)\<rparr>
         else s2)"

section \<open>The monitor\<close>

record TeamCoherenceMonitor =
  thresholds :: Thresholds
  agents :: "(string \<times> AgentStatus) list"
  alerts :: AlertSystem
  snapshots :: "CoherenceSnapshot list"

text \<open>The constructor with \<^verbatim>\<open>auto_load=False\<close>.\<close>

definition new_monitor :: "Thresholds \<Rightarrow> TeamCoherenceMonitor" where
  "new_monitor th = \<lparr>thresholds = th, agents = [], alerts = new_alert_system th, snapshots = []\<rparr>"

text \<open>\<open>register_agent\<close> returns the monitor and the record found or created under the
  canonical name; \<open>store_agent\<close> writes back a record the source mutates through its
  reference.\<close>

definition register_agent :: "TeamCoherenceMonitor \<Rightarrow> string \<Rightarrow> TeamCoherenceMonitor \<times> AgentStatus" where
  "register_agent m nm =
     (let n = upper nm
      in case map_of (agents m) n of
           None \<Rightarrow> (m\<lparr>agents := agents m @ [(n, new_agent n)]\<rparr>, new_agent n)
         | Some a \<Rightarrow> (m, a))"

definition store_agent :: "TeamCoherenceMonitor \<Rightarrow> string \<Rightarrow> AgentStatus \<Rightarrow> TeamCoherenceMonitor" where
  "store_agent m nm a = m\<lparr>agents := AList.update (upper nm) a (agents m)\<rparr>"

definition get_agent :: "TeamCoherenceMonitor \<Rightarrow> string \<Rightarrow> AgentStatus option" where
  "get_agent m nm = map_of (agents m) (upper nm)"

definition record_activity :: "TeamCoherenceMonitor \<Rightarrow> datetime \<Rightarrow> string \<Rightarrow> TeamCoherenceMonitor" where
  "record_activity m now nm =
     (let (m1, a) = register_agent m nm
      in store_agent m1 nm (a\<lparr>last_seen := Some now, is_active := True\<rparr>))"

definition record_response :: "TeamCoherenceMonitor \<Rightarrow> datetime \<Rightarrow> string \<Rightarrow> real \<Rightarrow> TeamCoherenceMonitor" where
  "record_response m now nm latency =
     (let (m1, a) = register_agent m nm;
          a1 = a\<lparr>response_latencies := response_latencies a @ [latency],
                 last_seen := Some now,
                 messages_sent := messages_sent a + 1\<rparr>;
          a2 = (if 100 < length (response_latencies a1)
                then a1\<lparr>response_latencies := py_slice_last 100 (response_latencies a1)\<rparr>
                else a1)
      in store_agent m1 nm a2)"

text \<open>The facade's \<^verbatim>\<open>clear_alerts(agent)\<close> hands the name on as it is.\<close>

definition monitor_clear_alerts :: "TeamCoherenceMonitor \<Rightarrow> string option \<Rightarrow> int \<times> TeamCoherenceMonitor" where
  "monitor_clear_alerts m ag =
     (let (n, s) = clear_alerts (alerts m) ag None in (n, m\<lparr>alerts := s\<rparr>))"

section \<open>Trend analysis\<close>

definition get_coherence_score :: "TeamCoherenceMonitor \<Rightarrow> datetime \<Rightarrow> real" where
  "get_coherence_score m now = fst (calculate_team_score (thresholds m) now (agents m))"

record trend_report =
  trend :: string
  change :: real
  samples :: nat
  min_score :: real
  max_score :: real
  avg_score :: real

definition err_bind :: "py_error + 'a \<Rightarrow> ('a \<Rightarrow> py_error + 'b) \<Rightarrow> py_error + 'b" where
  "err_bind r f = (case r of Inl e \<Rightarrow> Inl e | Inr v \<Rightarrow> f v)"

definition classify :: "real \<Rightarrow> string" where
  "classify c = (if 5 < c then ''IMPROVING'' else if c < - 5 then ''DEGRADING'' else ''STABLE'')"

text \<open>The clock of one operation: \<open>clk k\<close> is what its reading number \<open>k\<close> returns, counted
  from 0. A function that reads the clock takes the number of the next reading and
  returns the number after its last one. \<^verbatim>\<open>calculate_agent_score\<close> reads the clock only
  for a record that has been seen, \<^verbatim>\<open>calculate_team_score\<close> once for each such record in
  the order of the table.\<close>

type_synonym clock = "nat \<Rightarrow> datetime"

definition agent_score_reading ::
  "Thresholds \<Rightarrow> clock \<Rightarrow> nat \<Rightarrow> AgentStatus \<Rightarrow> real \<times> nat" where
  "agent_score_reading th clk k a =
     (calculate_agent_score th (clk k) a, if last_seen a = None then k else Suc k)"

definition team_score_reading ::
  "Thresholds \<Rightarrow> clock \<Rightarrow> nat \<Rightarrow> (string \<times> AgentStatus) list
     \<Rightarrow> (real \<times> (string \<times> real) list) \<times> nat" where
  "team_score_reading th clk k ags =
     (if ags = [] then ((100, []), k)
      else let (agent_scores, k') =
                 foldl (\<lambda>(acc, k) (n, a).
                          let (sc, k1) = agent_score_reading th clk k a
                          in (AList.update n sc acc, k1)) ([], k) ags;
               overall = (if agent_scores \<noteq> [] then mean_of (map snd agent_scores) else 100)
           in ((round1 overall, agent_scores), k'))"

definition coherence_score_reading :: "TeamCoherenceMonitor \<Rightarrow> clock \<Rightarrow> nat \<Rightarrow> real \<times> nat" where
  "coherence_score_reading m clk k =
     (let (r, k') = team_score_reading (thresholds m) clk k (agents m) in (fst r, k'))"

text \<open>\<^verbatim>\<open>datetime.now() - timedelta(minutes=minutes)\<close>, in seconds: the subtraction raises
  OverflowError when its result is not a date of the years 1 to 9999.\<close>

definition cutoff_seconds :: "datetime \<Rightarrow> int \<Rightarrow> real" where
  "cutoff_seconds now minutes = to_seconds now - 60 * real_of_int minutes"

definition representable :: "real \<Rightarrow> bool" where
  "representable c \<longleftrightarrow> 86400 \<le> c \<and> c < 3652060 * 86400"

definition qualifying :: "TeamCoherenceMonitor \<Rightarrow> datetime \<Rightarrow> int \<Rightarrow> CoherenceSnapshot list" where
  "qualifying m now minutes =
     filter (\<lambda>s. cutoff_seconds now minutes < to_seconds (CoherenceSnapshot.timestamp s))
       (snapshots m)"

text \<open>\<^verbatim>\<open>statistics.mean\<close> of floats is the exact mean, rounded; \<^verbatim>\<open>round(x, 1)\<close> of a float is
  the decimal rounding of its exact value, rounded to a float.\<close>

definition float_mean :: "(real \<Rightarrow> real) \<Rightarrow> real list \<Rightarrow> py_error + real" where
  "float_mean fl xs = (if xs = [] then Inl StatisticsError else Inr (fl (mean_of xs)))"

definition float_round1 :: "(real \<Rightarrow> real) \<Rightarrow> real \<Rightarrow> real" where
  "float_round1 fl x = fl (round1 x)"

definition get_trend ::
  "TeamCoherenceMonitor \<Rightarrow> (real \<Rightarrow> real) \<Rightarrow> clock \<Rightarrow> int \<Rightarrow> py_error + trend_report" where
  "get_trend m fl clk minutes =
     (if \<not> representable (cutoff_seconds (clk 0) minutes) then Inl OverflowError
      else let recent = qualifying m (clk 0) minutes
      in if length recent < 2 then
           (let (s1, k1) = coherence_score_reading m clk 1;
                (s2, k2) = coherence_score_reading m clk k1;
                (s3, k3) = coherence_score_reading m clk k2
            in Inr \<lparr>trend = ''STABLE'', change = 0, samples = length recent,
                    min_score = s1, max_score = s2, avg_score = s3\<rparr>)
         else
           (let scores = map overall_score recent;
                first_half = take (length scores div 2) scores;
                second_half = drop (length scores div 2) scores
            in err_bind (float_mean fl first_half) (\<lambda>avg_first.
               err_bind (float_mean fl second_half) (\<lambda>avg_second.
               let c = fl (avg_second - avg_first)
               in err_bind (py_min scores) (\<lambda>lo.
                  err_bind (py_max scores) (\<lambda>hi.
                  err_bind (float_mean fl scores) (\<lambda>av.
                    Inr \<lparr>trend = classify c, change = float_round1 fl c,
                         samples = length recent,
                         min_score = lo, max_score = hi,
                         avg_score = float_round1 fl av\<rparr>)))))))"

section \<open>Interchange dictionaries\<close>

text \<open>\<^verbatim>\<open>datetime.isoformat\<close> of a naive value, and \<^verbatim>\<open>datetime.fromisoformat\<close> on the two
  layouts it emits (with and without microseconds); the model rejects every other text,
  of which the library accepts some.\<close>

definition isoformat :: "datetime \<Rightarrow> string" where
  "isoformat t =
     pad 4 (year t) @ ''-'' @ pad 2 (month t) @ ''-'' @ pad 2 (day t) @ ''T''
       @ pad 2 (hour t) @ '':'' @ pad 2 (minute t) @ '':'' @ pad 2 (second t)
       @ (if microsecond t = 0 then [] else ''.'' @ pad 6 (microsecond t))"

definition is_digit :: "char \<Rightarrow> bool" where
  "is_digit c \<longleftrightarrow> 48 \<le> (of_char c :: nat) \<and> (of_char c :: nat) \<le> 57"

definition digit_val :: "char \<Rightarrow> nat" where
  "digit_val c = of_char c - 48"

definition take_digits :: "nat \<Rightarrow> string \<Rightarrow> (nat \<times> string) option" where
  "take_digits n s =
     (if n \<le> length s \<and> list_all is_digit (take n s)
      then Some (foldl (\<lambda>acc c. 10 * acc + digit_val c) 0 (take n s), drop n s)
      else None)"

definition expect :: "char \<Rightarrow> string \<Rightarrow> string option" where
  "expect c s = (case s of [] \<Rightarrow> None | x # r \<Rightarrow> if x = c then Some r else None)"

definition parse_iso :: "string \<Rightarrow> datetime option" where
  "parse_iso s0 = do {
     (y, s1) \<leftarrow> take_digits 4 s0;
     s2 \<leftarrow> expect CHR ''-'' s1;
     (mo, s3) \<leftarrow> take_digits 2 s2;
     s4 \<leftarrow> expect CHR ''-'' s3;
     (d, s5) \<leftarrow> take_digits 2 s4;
     s6 \<leftarrow> expect CHR ''T'' s5;
     (h, s7) \<leftarrow> take_digits 2 s6;
     s8 \<leftarrow> expect CHR '':'' s7;
     (mi, s9) \<leftarrow> take_digits 2 s8;
     s10 \<leftarrow> expect CHR '':'' s9;
     (sec, s11) \<leftarrow> take_digits 2 s10;
     if s11 = [] then
       Some \<lparr>year = y, month = mo, day = d, hour = h, minute = mi, second = sec,
             microsecond = 0\<rparr>
     else do {
       s12 \<leftarrow> expect CHR ''.'' s11;
       (us, s13) \<leftarrow> take_digits 6 s12;
       if s13 = [] then
         Some \<lparr>year = y, month = mo, day = d, hour = h, minute = mi, second = sec,
               microsecond = us\<rparr>
       else None
     }
   }"

definition fromisoformat :: "string \<Rightarrow> py_error + datetime" where
  "fromisoformat s =
     (case parse_iso s of
        None \<Rightarrow> Inl ValueError
      | Some t \<Rightarrow> if valid_datetime t then Inr t else Inl ValueError)"

text \<open>The values a dictionary of the interchange shape holds. The records are typed:
  where the source would store a value of another type in a field as it is, the model
  answers \<open>TypeError\<close>.\<close>

datatype pyval = PNone | PBool bool | PInt int | PFloat real | PStr string | PList "pyval list"

type_synonym pydict = "(string \<times> pyval) list"

definition getitem :: "pydict \<Rightarrow> string \<Rightarrow> py_error + pyval" where
  "getitem d k = (case map_of d k of None \<Rightarrow> Inl KeyError | Some v \<Rightarrow> Inr v)"

definition get_or :: "pydict \<Rightarrow> string \<Rightarrow> pyval \<Rightarrow> pyval" where
  "get_or d k dflt = (case map_of d k of None \<Rightarrow> dflt | Some v \<Rightarrow> v)"

fun truthy :: "pyval \<Rightarrow> bool" where
  "truthy PNone = False"
| "truthy (PBool b) = b"
| "truthy (PInt i) = (i \<noteq> 0)"
| "truthy (PFloat x) = (x \<noteq> 0)"
| "truthy (PStr s) = (s \<noteq> [])"
| "truthy (PList vs) = (vs \<noteq> [])"

fun as_str :: "pyval \<Rightarrow> py_error + string" where
  "as_str (PStr s) = Inr s"
| "as_str _ = Inl TypeError"

fun as_opt_str :: "pyval \<Rightarrow> py_error + string option" where
  "as_opt_str PNone = Inr None"
| "as_opt_str (PStr s) = Inr (Some s)"
| "as_opt_str _ = Inl TypeError"

fun as_bool :: "pyval \<Rightarrow> py_error + bool" where
  "as_bool (PBool b) = Inr b"
| "as_bool _ = Inl TypeError"

fun as_int :: "pyval \<Rightarrow> py_error + int" where
  "as_int (PInt i) = Inr i"
| "as_int _ = Inl TypeError"

fun as_float :: "pyval \<Rightarrow> py_error + real" where
  "as_float (PFloat x) = Inr x"
| "as_float _ = Inl TypeError"

fun as_floats :: "pyval list \<Rightarrow> py_error + real list" where
  "as_floats [] = Inr []"
| "as_floats (v # vs) =
     err_bind (as_float v) (\<lambda>x. err_bind (as_floats vs) (\<lambda>xs. Inr (x # xs)))"

fun as_float_list :: "pyval \<Rightarrow> py_error + real list" where
  "as_float_list (PList vs) = as_floats vs"
| "as_float_list _ = Inl TypeError"

definition AgentStatus_to_dict :: "AgentStatus \<Rightarrow> pydict" where
  "AgentStatus_to_dict a =
     [(''name'', PStr (name a)),
      (''last_seen'', (case last_seen a of Some t \<Rightarrow> PStr (isoformat t) | None \<Rightarrow> PNone)),
      (''is_active'', PBool (is_active a)),
      (''response_latencies'', PList (map PFloat (py_slice_last 100 (response_latencies a)))),
      (''mentions_received'', PInt (mentions_received a)),
      (''mentions_acknowledged'', PInt (mentions_acknowledged a)),
      (''correct_claims'', PInt (correct_claims a)),
      (''total_claims'', PInt (total_claims a)),
      (''messages_sent'', PInt (messages_sent a)),
      (''errors_detected'', PInt (errors_detected a))]"

definition read_last_seen :: "pydict \<Rightarrow> py_error + datetime option" where
  "read_last_seen d =
     (let v = get_or d ''last_seen'' PNone
      in if truthy v then err_bind (as_str v) (\<lambda>s. err_bind (fromisoformat s) (\<lambda>t. Inr (Some t)))
         else Inr None)"

definition AgentStatus_from_dict :: "pydict \<Rightarrow> py_error + AgentStatus" where
  "AgentStatus_from_dict d =
     err_bind (err_bind (getitem d ''name'') as_str) (\<lambda>n.
     err_bind (read_last_seen d) (\<lambda>seen.
     err_bind (as_bool (get_or d ''is_active'' (PBool False))) (\<lambda>act.
     err_bind (as_float_list (get_or d ''response_latencies'' (PList []))) (\<lambda>lats.
     err_bind (as_int (get_or d ''mentions_received'' (PInt 0))) (\<lambda>mr.
     err_bind (as_int (get_or d ''mentions_acknowledged'' (PInt 0))) (\<lambda>ma.
     err_bind (as_int (get_or d ''correct_claims'' (PInt 0))) (\<lambda>cc.
     err_bind (as_int (get_or d ''total_claims'' (PInt 0))) (\<lambda>tc.
     err_bind (as_int (get_or d ''messages_sent'' (PInt 0))) (\<lambda>ms.
     err_bind (as_int (get_or d ''errors_detected'' (PInt 0))) (\<lambda>ed.
       Inr \<lparr>name = n, last_seen = seen, is_active = act, response_latencies = lats,
            mentions_received = mr, mentions_acknowledged = ma, correct_claims = cc,
            total_claims = tc, messages_sent = ms, errors_detected = ed\<rparr>))))))))))"

definition Alert_to_dict :: "Alert \<Rightarrow> pydict" where
  "Alert_to_dict a =
     [(''timestamp'', PStr (isoformat (Alert.timestamp a))),
      (''severity'', PStr (severity a)),
      (''agent'', (case agent a of Some n \<Rightarrow> PStr n | None \<Rightarrow> PNone)),
      (''metric'', PStr (metric a)),
      (''message'', PStr (message a)),
      (''value'', PFloat (value a)),
      (''threshold'', PFloat (threshold a))]"

definition Alert_from_dict :: "pydict \<Rightarrow> py_error + Alert" where
  "Alert_from_dict d =
     err_bind (err_bind (err_bind (getitem d ''timestamp'') as_str) fromisoformat) (\<lambda>ts.
     err_bind (err_bind (getitem d ''severity'') as_str) (\<lambda>sev.
     err_bind (as_opt_str (get_or d ''agent'' PNone)) (\<lambda>ag.
     err_bind (err_bind (getitem d ''metric'') as_str) (\<lambda>me.
     err_bind (err_bind (getitem d ''message'') as_str) (\<lambda>msg.
     err_bind (err_bind (getitem d ''value'') as_float) (\<lambda>v.
     err_bind (err_bind (getitem d ''threshold'') as_float) (\<lambda>thr.
       Inr (mk_alert ts sev ag me msg v thr))))))))"

definition Thresholds_to_dict :: "Thresholds \<Rightarrow> pydict" where
  "Thresholds_to_dict th =
     [(''latency_warning'', PFloat (latency_warning th)),
      (''latency_critical'', PFloat (latency_critical th)),
      (''ack_rate_warning'', PFloat (ack_rate_warning th)),
      (''ack_rate_critical'', PFloat (ack_rate_critical th)),
      (''fidelity_warning'', PFloat (fidelity_warning th)),
      (''fidelity_critical'', PFloat (fidelity_critical th)),
      (''inactive_warning'', PFloat (inactive_warning th)),
      (''inactive_critical'', PFloat (inactive_critical th)),
      (''coherence_warning'', PFloat (coherence_warning th)),
      (''coherence_critical'', PFloat (coherence_critical th))]"

text \<open>\<^verbatim>\<open>cls(**{k: v ...})\<close>: a key that is present sets its field, a missing one leaves the
  default, any other key is dropped.\<close>

definition field_or :: "pydict \<Rightarrow> string \<Rightarrow> real \<Rightarrow> py_error + real" where
  "field_or d k dflt = (case map_of d k of None \<Rightarrow> Inr dflt | Some v \<Rightarrow> as_float v)"

definition Thresholds_from_dict :: "pydict \<Rightarrow> py_error + Thresholds" where
  "Thresholds_from_dict d =
     err_bind (field_or d ''latency_warning'' 30) (\<lambda>lw.
     err_bind (field_or d ''latency_critical'' 60) (\<lambda>lc.
     err_bind (field_or d ''ack_rate_warning'' 80) (\<lambda>aw.
     err_bind (field_or d ''ack_rate_critical'' 60) (\<lambda>ac.
     err_bind (field_or d ''fidelity_warning'' 90) (\<lambda>fw.
     err_bind (field_or d ''fidelity_critical'' 70) (\<lambda>fc.
     err_bind (field_or d ''inactive_warning'' 120) (\<lambda>iw.
     err_bind (field_or d ''inactive_critical'' 300) (\<lambda>ic.
     err_bind (field_or d ''coherence_warning'' 75) (\<lambda>cw.
     err_bind (field_or d ''coherence_critical'' 50) (\<lambda>cc.
       Inr \<lparr>latency_warning = lw, latency_critical = lc,
            ack_rate_warning = aw, ack_rate_critical = ac,
            fidelity_warning = fw, fidelity_critical = fc,
            inactive_warning = iw, inactive_critical = ic,
            coherence_warning = cw, coherence_critical = cc\<rparr>))))))))))"

section \<open>Call sequences and example values\<close>

text \<open>A sequence of \<^verbatim>\<open>record_response\<close> calls, each with the clock reading it sees, the
  latency history held under a name, and the latencies a call sequence records for it.\<close>

definition record_responses ::
  "TeamCoherenceMonitor \<Rightarrow> (datetime \<times> string \<times> real) list \<Rightarrow> TeamCoherenceMonitor" where
  "record_responses m calls = foldl (\<lambda>m (t, nm, x). record_response m t nm x) m calls"

definition latencies_of :: "TeamCoherenceMonitor \<Rightarrow> string \<Rightarrow> real list" where
  "latencies_of m nm = (case get_agent m nm of None \<Rightarrow> [] | Some a \<Rightarrow> response_latencies a)"

definition recorded_for :: "string \<Rightarrow> (datetime \<times> string \<times> real) list \<Rightarrow> real list" where
  "recorded_for nm calls = map (\<lambda>(t, n, x). x) (filter (\<lambda>(t, n, x). upper n = upper nm) calls)"

definition noon :: datetime where
  "noon = \<lparr>year = 2026, month = 1, day = 25, hour = 12, minute = 0, second = 0,
            microsecond = 0\<rparr>"

definition alert_forge_latency :: Alert where
  "alert_forge_latency =
     mk_alert noon ''WARNING'' (Some ''FORGE'') ''latency'' ''FORGE response latency high'' 35 30"

definition later :: datetime where
  "later = noon\<lparr>minute := 10\<rparr>"

definition forge_degraded :: AgentStatus where
  "forge_degraded =
     (new_agent ''FORGE'')\<lparr>last_seen := Some noon, response_latencies := [70],
        mentions_received := 10, mentions_acknowledged := 5,
        correct_claims := 5, total_claims := 10\<rparr>"

definition forge_monitor :: TeamCoherenceMonitor where
  "forge_monitor =
     \<lparr>thresholds = default_thresholds,
      agents = [(''FORGE'', new_agent ''FORGE'')],
      alerts = \<lparr>AlertSystem.thresholds = default_thresholds,
                active_alerts = [alert_forge_latency],
                alert_history = [alert_forge_latency]\<rparr>,
      snapshots = []\<rparr>"

definition registered_pair :: "string \<Rightarrow> string \<Rightarrow> TeamCoherenceMonitor" where
  "registered_pair n1 n2 =
     fst (register_agent (fst (register_agent (new_monitor default_thresholds) n1)) n2)"

definition snap :: "datetime \<Rightarrow> real \<Rightarrow> CoherenceSnapshot" where
  "snap t v = \<lparr>CoherenceSnapshot.timestamp = t, overall_score = v, agent_scores = [],
               active_agents = 0, total_agents = 0, alerts_active = 0\<rparr>"

definition trend_monitor :: TeamCoherenceMonitor where
  "trend_monitor =
     (new_monitor default_thresholds)\<lparr>snapshots := [snap noon 70, snap noon 80, snap noon 90]\<rparr>"

definition frozen :: "datetime \<Rightarrow> clock" where
  "frozen t = (\<lambda>k. t)"

definition close_a :: real where
  "close_a = binary64 (604 / 10)"

definition close_b :: real where
  "close_b = binary64 (654 / 10)"

definition close_monitor :: TeamCoherenceMonitor where
  "close_monitor =
     (new_monitor default_thresholds)\<lparr>snapshots := [snap noon close_a, snap noon close_b]\<rparr>"

definition seen_agent :: AgentStatus where
  "seen_agent = (new_agent ''FORGE'')\<lparr>last_seen := Some noon\<rparr>"

definition seen_monitor :: TeamCoherenceMonitor where
  "seen_monitor = (new_monitor default_thresholds)\<lparr>agents := [(''FORGE'', seen_agent)]\<rparr>"

definition race_t1 :: datetime where
  "race_t1 = noon\<lparr>second := 30, microsecond := 899999\<rparr>"

definition race_t2 :: datetime where
  "race_t2 = noon\<lparr>second := 30, microsecond := 900001\<rparr>"

definition race_clock :: clock where
  "race_clock k = (if k \<le> 1 then race_t1 else race_t2)"

definition long_agent :: AgentStatus where
  "long_agent = (new_agent ''FORGE'')\<lparr>response_latencies := replicate 101 1\<rparr>"

section \<open>Basic facts\<close>

lemma upper_char_idem: "upper_char (upper_char c) = upper_char c"
  by (auto simp add: upper_char_def Let_def)

lemma upper_idem: "upper (upper s) = upper s"
  by (simp add: upper_def upper_char_idem)

lemma upper_FORGE: "upper ''FORGE'' = ''FORGE''"
  by code_simp

lemma slice_last_length: "length (py_slice_last n xs) \<le> n"
  by (simp add: py_slice_last_def)

lemma slice_last_short: "length xs \<le> n \<Longrightarrow> py_slice_last n xs = xs"
  by (simp add: py_slice_last_def)

lemma slice_last_snoc:
  "py_slice_last (Suc n) (py_slice_last (Suc n) ys @ [x]) = py_slice_last (Suc n) (ys @ [x])"
proof (cases "length ys \<le> Suc n")
  case True
  then show ?thesis by (simp add: py_slice_last_def)
next
  case False
  then have "Suc (length ys - Suc n) = length ys - n" by arith
  with False show ?thesis by (simp add: py_slice_last_def)
qed

lemma slice_last_100_snoc:
  "py_slice_last 100 (py_slice_last 100 ys @ [x]) = py_slice_last 100 (ys @ [x])"
  using slice_last_snoc [of 99 ys x] by simp

section \<open>Clearing alerts\<close>

text \<open>What \<open>clear_alerts\<close> does in general: it removes the alerts that match the agent
  filter or the metric filter, and it returns how many it removed.\<close>

lemma clear_alerts_count:
  "fst (clear_alerts s ag me) = int (length (filter (\<lambda>a. \<not> kept ag me a) (active_alerts s)))"
proof -
  have "length (filter (kept ag me) xs) + length (filter (\<lambda>a. \<not> kept ag me a) xs) = length xs"
    for xs by (rule sum_length_filter_compl)
  from this [of "active_alerts s"] show ?thesis
    by (simp add: clear_alerts_def Let_def)
qed

lemma clear_alerts_removed:
  "\<not> kept ag me a \<longleftrightarrow> (ag \<noteq> None \<and> agent a = ag) \<or> (me \<noteq> None \<and> Some (metric a) = me)"
  by (auto simp add: kept_def)

text \<open>
  C1. The claim asks that, with both filters given, only the alerts matching the agent
  and the metric are removed. At the active set holding one latency alert of FORGE,
  \<^verbatim>\<open>clear_alerts(agent='FORGE', metric='ack_rate')\<close> removes that alert and returns 1,
  although its metric is not the one asked for.
\<close>

theorem clear_alerts_removes_partial_match:
  "clear_alerts (new_alert_system default_thresholds\<lparr>active_alerts := [alert_forge_latency]\<rparr>)
       (Some ''FORGE'') (Some ''ack_rate'')
     = (1, new_alert_system default_thresholds)
   \<and> metric alert_forge_latency = ''latency''"
  by (simp add: clear_alerts_def new_alert_system_def alert_forge_latency_def mk_alert_def
        kept_def)

section \<open>Recording operations\<close>

lemma record_activity_sets_active:
  "\<exists>a. get_agent (record_activity m now nm) nm = Some a \<and> is_active a \<and> last_seen a = Some now"
  by (auto simp add: get_agent_def record_activity_def register_agent_def store_agent_def
        Let_def update_conv' split: option.splits)

text \<open>
  C2. The claim asks that every operation that updates \<open>last_seen\<close> leaves \<open>is_active\<close>
  true. \<open>record_activity\<close> does (lemma \<open>record_activity_sets_active\<close>); \<open>record_response\<close>
  on a new monitor creates the record of FORGE, sets its \<open>last_seen\<close>, and leaves
  \<open>is_active\<close> false.
\<close>

theorem record_response_leaves_inactive:
  "get_agent (record_response (new_monitor default_thresholds) noon ''FORGE'' 2.5) ''FORGE''
     = Some ((new_agent ''FORGE'')\<lparr>response_latencies := [2.5], last_seen := Some noon,
               messages_sent := 1\<rparr>)
   \<and> \<not> is_active (the (get_agent
          (record_response (new_monitor default_thresholds) noon ''FORGE'' 2.5) ''FORGE''))"
  by (simp add: get_agent_def record_response_def register_agent_def store_agent_def
        new_monitor_def upper_FORGE new_agent_def Let_def)

lemma latencies_of_record_response:
  "latencies_of (record_response m t n x) nm =
     (if upper n = upper nm then py_slice_last 100 (latencies_of m nm @ [x])
      else latencies_of m nm)"
  by (auto simp add: latencies_of_def get_agent_def record_response_def register_agent_def
        store_agent_def Let_def update_conv' slice_last_short new_agent_def
      split: option.splits)

lemma latencies_of_record_responses:
  "latencies_of (record_responses m calls) nm =
     (if recorded_for nm calls = [] then latencies_of m nm
      else py_slice_last 100 (latencies_of m nm @ recorded_for nm calls))"
proof (induction calls rule: rev_induct)
  case Nil
  then show ?case by (simp add: record_responses_def recorded_for_def)
next
  case (snoc c calls)
  obtain t n x where c: "c = (t, n, x)" by (cases c) auto
  have step: "record_responses m (calls @ [c]) = record_response (record_responses m calls) t n x"
    by (simp add: record_responses_def c)
  show ?case
  proof (cases "upper n = upper nm")
    case True
    then have r: "recorded_for nm (calls @ [c]) = recorded_for nm calls @ [x]"
      by (simp add: recorded_for_def c)
    show ?thesis
      using True snoc.IH by (simp add: step r latencies_of_record_response slice_last_100_snoc)
  next
    case False
    then have r: "recorded_for nm (calls @ [c]) = recorded_for nm calls"
      by (simp add: recorded_for_def c)
    show ?thesis
      using False snoc.IH by (simp add: step r latencies_of_record_response)
  qed
qed

text \<open>
  C5. Whatever the monitor holds and whatever \<open>record_response\<close> calls were made, for any
  agents, after each further \<open>record_response\<close> call for an agent its latency history is
  the last 100 entries of the history it started with followed by the latencies recorded
  for it, in the order recorded, and so never holds more than 100 entries.
\<close>

theorem record_response_keeps_last_100:
  "latencies_of (record_response (record_responses m calls) t nm x) nm
     = py_slice_last 100 (latencies_of m nm @ recorded_for nm calls @ [x])
   \<and> length (latencies_of (record_response (record_responses m calls) t nm x) nm) \<le> 100"
proof -
  have "latencies_of (record_response (record_responses m calls) t nm x) nm
     = py_slice_last 100 (latencies_of m nm @ recorded_for nm calls @ [x])"
    by (simp add: latencies_of_record_response latencies_of_record_responses
          slice_last_100_snoc)
  then show ?thesis by (simp add: slice_last_length)
qed

section \<open>The facade's clear_alerts and agent names\<close>

text \<open>
  C10. The facade hands the agent name to the alert system as it is. When every alert of
  the active set that names an agent names it in upper case, and the name given differs
  from its upper-case form, \<open>clear_alerts\<close> removes nothing and returns 0, while
  \<open>get_agent\<close> and \<open>register_agent\<close> treat the name as its upper-case form.
\<close>

theorem monitor_clear_alerts_case_sensitive:
  assumes canon: "\<forall>a \<in> set (active_alerts (alerts m)). \<forall>u. agent a = Some u \<longrightarrow> upper u = u"
    and other: "upper nm \<noteq> nm"
  shows "monitor_clear_alerts m (Some nm) = (0, m)
       \<and> get_agent m nm = get_agent m (upper nm)
       \<and> register_agent m nm = register_agent m (upper nm)"
proof -
  have "kept (Some nm) None a" if "a \<in> set (active_alerts (alerts m))" for a
    using canon other that by (auto simp add: kept_def)
  then have "filter (kept (Some nm) None) (active_alerts (alerts m)) = active_alerts (alerts m)"
    by (simp add: filter_id_conv)
  then have "monitor_clear_alerts m (Some nm) = (0, m)"
    by (simp add: monitor_clear_alerts_def clear_alerts_def Let_def)
  then show ?thesis
    by (simp add: get_agent_def register_agent_def upper_idem)
qed

theorem monitor_clear_alerts_case_sensitive_witness:
  "upper ''forge'' \<noteq> ''forge''
   \<and> monitor_clear_alerts forge_monitor (Some ''forge'') = (0, forge_monitor)
   \<and> get_agent forge_monitor ''forge'' = get_agent forge_monitor (upper ''forge'')
   \<and> register_agent forge_monitor ''forge'' = register_agent forge_monitor (upper ''forge'')"
proof -
  have canon: "\<forall>a \<in> set (active_alerts (alerts forge_monitor)).
      \<forall>u. agent a = Some u \<longrightarrow> upper u = u"
    by (simp add: forge_monitor_def alert_forge_latency_def mk_alert_def upper_FORGE)
  have other: "upper ''forge'' \<noteq> ''forge''"
    by code_simp
  from monitor_clear_alerts_case_sensitive [OF canon other] other show ?thesis
    by blast
qed

section \<open>Processing new alerts\<close>

lemma process_alerts_loop:
  "foldl (\<lambda>s a. s\<lparr>active_alerts := active_alerts s @ [a],
                    alert_history := alert_history s @ [a]\<rparr>) s new
   = s\<lparr>active_alerts := active_alerts s @ new, alert_history := alert_history s @ new\<rparr>"
  by (induction new arbitrary: s) simp_all

text \<open>
  C6. \<open>process_alerts\<close> appends the new alerts to the active set and to the history.
  Afterwards the active set is the old active set followed by the new alerts, restricted
  to the alerts whose timestamp is strictly later than one hour before \<open>now\<close>; the
  history is the last 1000 entries of the old history followed by the new alerts, in
  insertion order and whatever their age, so it holds at most 1000 entries.
\<close>

theorem process_alerts_window_and_cap:
  "active_alerts (process_alerts s now new)
     = filter (\<lambda>a. to_seconds now - 3600 < to_seconds (Alert.timestamp a))
         (active_alerts s @ new)
   \<and> alert_history (process_alerts s now new) = py_slice_last 1000 (alert_history s @ new)
   \<and> length (alert_history (process_alerts s now new)) \<le> 1000"
proof -
  have h: "alert_history (process_alerts s now new) = py_slice_last 1000 (alert_history s @ new)"
    by (simp add: process_alerts_def process_alerts_loop Let_def slice_last_short)
  have a: "active_alerts (process_alerts s now new)
     = filter (\<lambda>a. to_seconds now - 3600 < to_seconds (Alert.timestamp a))
         (active_alerts s @ new)"
    by (simp add: process_alerts_def process_alerts_loop Let_def)
  from h a show ?thesis by (simp add: slice_last_length)
qed

section \<open>Checking one agent\<close>

lemma check_ack_rate_shape:
  "length (check_ack_rate s now a) \<le> 1
   \<and> (\<forall>x \<in> set (check_ack_rate s now a). metric x = ''ack_rate'')"
  by (simp add: check_ack_rate_def mk_alert_def Let_def)

lemma check_latency_shape:
  "length (check_latency s now a) \<le> 1
   \<and> (\<forall>x \<in> set (check_latency s now a). metric x = ''latency'')"
  by (simp add: check_latency_def mk_alert_def Let_def)

lemma check_fidelity_shape:
  "length (check_fidelity s now a) \<le> 1
   \<and> (\<forall>x \<in> set (check_fidelity s now a). metric x = ''fidelity'')"
  by (simp add: check_fidelity_def mk_alert_def Let_def)

lemma check_activity_shape:
  "length (check_activity s now a) \<le> 1
   \<and> (\<forall>x \<in> set (check_activity s now a). metric x = ''activity'')"
  by (cases "last_seen a") (simp_all add: check_activity_def mk_alert_def Let_def)

lemma filter_other_metric:
  "\<forall>x \<in> set xs. metric x = k \<Longrightarrow> k \<noteq> me \<Longrightarrow> filter (\<lambda>x. metric x = me) xs = []"
  by (induction xs) auto

lemma filter_same_metric:
  "\<forall>x \<in> set xs. metric x = k \<Longrightarrow> filter (\<lambda>x. metric x = k) xs = xs"
  by (induction xs) auto

lemma check_agent_filter:
  "filter (\<lambda>x. metric x = me) (check_agent s now a) =
     (if me = ''ack_rate'' then check_ack_rate s now a
      else if me = ''latency'' then check_latency s now a
      else if me = ''fidelity'' then check_fidelity s now a
      else if me = ''activity'' then check_activity s now a
      else [])"
proof -
  note sh = check_ack_rate_shape [of s now a] check_latency_shape [of s now a]
    check_fidelity_shape [of s now a] check_activity_shape [of s now a]
  have f1: "filter (\<lambda>x. metric x = me) (check_ack_rate s now a) =
      (if me = ''ack_rate'' then check_ack_rate s now a else [])"
    using sh(1) by (simp add: filter_same_metric filter_other_metric [of _ "''ack_rate''"])
  have f2: "filter (\<lambda>x. metric x = me) (check_latency s now a) =
      (if me = ''latency'' then check_latency s now a else [])"
    using sh(2) by (simp add: filter_same_metric filter_other_metric [of _ "''latency''"])
  have f3: "filter (\<lambda>x. metric x = me) (check_fidelity s now a) =
      (if me = ''fidelity'' then check_fidelity s now a else [])"
    using sh(3) by (simp add: filter_same_metric filter_other_metric [of _ "''fidelity''"])
  have f4: "filter (\<lambda>x. metric x = me) (check_activity s now a) =
      (if me = ''activity'' then check_activity s now a else [])"
    using sh(4) by (simp add: filter_same_metric filter_other_metric [of _ "''activity''"])
  show ?thesis
    unfolding check_agent_def filter_append f1 f2 f3 f4 by simp
qed

lemma at_most_one_same:
  "length xs \<le> 1 \<Longrightarrow> x \<in> set xs \<Longrightarrow> y \<in> set xs \<Longrightarrow> x = y"
  by (cases xs) auto

text \<open>
  C4. One call of \<open>check_agent\<close> returns at most one alert for each metric, so never a
  WARNING and a CRITICAL alert for the same metric; and for each of the four metrics,
  when its check applies and both its critical and its warning threshold are crossed,
  the one alert returned for that metric is CRITICAL.
\<close>

theorem check_agent_severity_exclusive:
  "(\<forall>me. length (filter (\<lambda>x. metric x = me) (check_agent s now a)) \<le> 1)
   \<and> (\<forall>x \<in> set (check_agent s now a). \<forall>y \<in> set (check_agent s now a).
         metric x = metric y \<longrightarrow> \<not> (severity x = ''WARNING'' \<and> severity y = ''CRITICAL''))
   \<and> (0 < mentions_received a \<and> ack_rate a < ack_rate_critical (AlertSystem.thresholds s)
          \<and> ack_rate a < ack_rate_warning (AlertSystem.thresholds s)
        \<longrightarrow> map severity (filter (\<lambda>x. metric x = ''ack_rate'') (check_agent s now a))
              = [''CRITICAL''])
   \<and> (0 < avg_latency a \<and> latency_critical (AlertSystem.thresholds s) \<le> avg_latency a
          \<and> latency_warning (AlertSystem.thresholds s) \<le> avg_latency a
        \<longrightarrow> map severity (filter (\<lambda>x. metric x = ''latency'') (check_agent s now a))
              = [''CRITICAL''])
   \<and> (0 < total_claims a \<and> context_fidelity a < fidelity_critical (AlertSystem.thresholds s)
          \<and> context_fidelity a < fidelity_warning (AlertSystem.thresholds s)
        \<longrightarrow> map severity (filter (\<lambda>x. metric x = ''fidelity'') (check_agent s now a))
              = [''CRITICAL''])
   \<and> (\<forall>t. last_seen a = Some t
          \<and> inactive_critical (AlertSystem.thresholds s) \<le> to_seconds now - to_seconds t
          \<and> inactive_warning (AlertSystem.thresholds s) \<le> to_seconds now - to_seconds t
        \<longrightarrow> map severity (filter (\<lambda>x. metric x = ''activity'') (check_agent s now a))
              = [''CRITICAL''])"
proof -
  have one: "length (filter (\<lambda>x. metric x = me) (check_agent s now a)) \<le> 1" for me
    using check_ack_rate_shape [of s now a] check_latency_shape [of s now a]
      check_fidelity_shape [of s now a] check_activity_shape [of s now a]
    by (simp add: check_agent_filter)
  have excl: "\<not> (severity x = ''WARNING'' \<and> severity y = ''CRITICAL'')"
    if "x \<in> set (check_agent s now a)" "y \<in> set (check_agent s now a)" "metric x = metric y"
    for x y
  proof -
    from that have "x \<in> set (filter (\<lambda>z. metric z = metric y) (check_agent s now a))"
      and "y \<in> set (filter (\<lambda>z. metric z = metric y) (check_agent s now a))"
      by simp_all
    with one [of "metric y"] have "x = y" by (rule at_most_one_same)
    then show ?thesis by simp
  qed
  have ack: "map severity (check_ack_rate s now a) = [''CRITICAL'']"
    if "0 < mentions_received a" "ack_rate a < ack_rate_critical (AlertSystem.thresholds s)"
    using that by (simp add: check_ack_rate_def mk_alert_def Let_def)
  have lat: "map severity (check_latency s now a) = [''CRITICAL'']"
    if "0 < avg_latency a" "latency_critical (AlertSystem.thresholds s) \<le> avg_latency a"
    using that by (simp add: check_latency_def mk_alert_def Let_def)
  have fid: "map severity (check_fidelity s now a) = [''CRITICAL'']"
    if "0 < total_claims a" "context_fidelity a < fidelity_critical (AlertSystem.thresholds s)"
    using that by (simp add: check_fidelity_def mk_alert_def Let_def)
  have act: "map severity (check_activity s now a) = [''CRITICAL'']"
    if "last_seen a = Some t"
      "inactive_critical (AlertSystem.thresholds s) \<le> to_seconds now - to_seconds t" for t
    using that by (simp add: check_activity_def mk_alert_def Let_def)
  have crit: "(0 < mentions_received a \<and> ack_rate a < ack_rate_critical (AlertSystem.thresholds s)
          \<and> ack_rate a < ack_rate_warning (AlertSystem.thresholds s)
        \<longrightarrow> map severity (filter (\<lambda>x. metric x = ''ack_rate'') (check_agent s now a))
              = [''CRITICAL''])
   \<and> (0 < avg_latency a \<and> latency_critical (AlertSystem.thresholds s) \<le> avg_latency a
          \<and> latency_warning (AlertSystem.thresholds s) \<le> avg_latency a
        \<longrightarrow> map severity (filter (\<lambda>x. metric x = ''latency'') (check_agent s now a))
              = [''CRITICAL''])
   \<and> (0 < total_claims a \<and> context_fidelity a < fidelity_critical (AlertSystem.thresholds s)
          \<and> context_fidelity a < fidelity_warning (AlertSystem.thresholds s)
        \<longrightarrow> map severity (filter (\<lambda>x. metric x = ''fidelity'') (check_agent s now a))
              = [''CRITICAL''])
   \<and> (\<forall>t. last_seen a = Some t
          \<and> inactive_critical (AlertSystem.thresholds s) \<le> to_seconds now - to_seconds t
          \<and> inactive_warning (AlertSystem.thresholds s) \<le> to_seconds now - to_seconds t
        \<longrightarrow> map severity (filter (\<lambda>x. metric x = ''activity'') (check_agent s now a))
              = [''CRITICAL''])"
    using ack lat fid act by (simp add: check_agent_filter)
  from one excl crit show ?thesis by blast
qed

lemma ten_minutes: "to_seconds later - to_seconds noon = 600"
  by (simp add: to_seconds_def later_def noon_def days_before_year_def days_before_month_def
        is_leap_def)

theorem check_agent_severity_exclusive_witness:
  "map severity (filter (\<lambda>x. metric x = ''ack_rate'')
       (check_agent (new_alert_system default_thresholds) later forge_degraded)) = [''CRITICAL'']
   \<and> map severity (filter (\<lambda>x. metric x = ''latency'')
       (check_agent (new_alert_system default_thresholds) later forge_degraded)) = [''CRITICAL'']
   \<and> map severity (filter (\<lambda>x. metric x = ''fidelity'')
       (check_agent (new_alert_system default_thresholds) later forge_degraded)) = [''CRITICAL'']
   \<and> map severity (filter (\<lambda>x. metric x = ''activity'')
       (check_agent (new_alert_system default_thresholds) later forge_degraded)) = [''CRITICAL'']
   \<and> length (check_agent (new_alert_system default_thresholds) later forge_degraded) = 4"
proof -
  let ?s = "new_alert_system default_thresholds"
  have h1: "0 < mentions_received forge_degraded
      \<and> ack_rate forge_degraded < ack_rate_critical (AlertSystem.thresholds ?s)
      \<and> ack_rate forge_degraded < ack_rate_warning (AlertSystem.thresholds ?s)"
    by (simp add: new_alert_system_def forge_degraded_def new_agent_def ack_rate_def default_thresholds_def)
  have h2: "0 < avg_latency forge_degraded
      \<and> latency_critical (AlertSystem.thresholds ?s) \<le> avg_latency forge_degraded
      \<and> latency_warning (AlertSystem.thresholds ?s) \<le> avg_latency forge_degraded"
    by (simp add: new_alert_system_def forge_degraded_def new_agent_def avg_latency_def mean_of_def
          default_thresholds_def)
  have h3: "0 < total_claims forge_degraded
      \<and> context_fidelity forge_degraded < fidelity_critical (AlertSystem.thresholds ?s)
      \<and> context_fidelity forge_degraded < fidelity_warning (AlertSystem.thresholds ?s)"
    by (simp add: new_alert_system_def forge_degraded_def new_agent_def context_fidelity_def
          default_thresholds_def)
  have h4: "last_seen forge_degraded = Some noon
      \<and> inactive_critical (AlertSystem.thresholds ?s) \<le> to_seconds later - to_seconds noon
      \<and> inactive_warning (AlertSystem.thresholds ?s) \<le> to_seconds later - to_seconds noon"
    by (simp add: new_alert_system_def ten_minutes forge_degraded_def new_agent_def default_thresholds_def)
  have n: "length (check_agent ?s later forge_degraded) = 4"
    using h1 h2 h3 h4
    by (simp add: check_agent_def check_ack_rate_def check_latency_def check_fidelity_def
          check_activity_def Let_def)
  from check_agent_severity_exclusive [of ?s later forge_degraded] h1 h2 h3 h4 n
  show ?thesis by blast
qed

section \<open>Scores\<close>

lemma round1_85: "round1 85 = 85"
  by (simp add: round1_def round_half_even_def Let_def)

lemma new_agent_parts:
  "ack_rate (new_agent k) = 100 \<and> avg_latency (new_agent k) = 0
   \<and> context_fidelity (new_agent k) = 100
   \<and> seconds_since default_thresholds now (new_agent k) = 300"
  by (simp add: ack_rate_def avg_latency_def context_fidelity_def seconds_since_def
        new_agent_def default_thresholds_def)

lemma score_latency_default_0: "score_latency default_thresholds 0 = 100"
  by (simp add: score_latency_def)

lemma score_activity_default_300: "score_activity default_thresholds 300 = 0"
  by (simp add: score_activity_def default_thresholds_def)

lemma new_agent_score: "calculate_agent_score default_thresholds now (new_agent k) = 85"
  by (simp add: calculate_agent_score_def new_agent_parts score_latency_default_0
        score_activity_default_300 Let_def round1_85)

text \<open>
  C3. A monitor with default thresholds in which two agents with different canonical
  names have been registered, and nothing recorded, holds exactly their two new records.
  Each has acknowledgment rate 100, latency score 100, fidelity 100 and activity score 0
  (a record never seen counts as inactive for the critical time), hence agent score 85;
  the team score is 85.
\<close>

theorem fresh_pair_scores_85:
  assumes "upper n1 \<noteq> upper n2"
  shows "agents (registered_pair n1 n2)
           = [(upper n1, new_agent (upper n1)), (upper n2, new_agent (upper n2))]
       \<and> (\<forall>(k, a) \<in> set (agents (registered_pair n1 n2)).
             ack_rate a = 100
           \<and> score_latency default_thresholds (avg_latency a) = 100
           \<and> context_fidelity a = 100
           \<and> score_activity default_thresholds (seconds_since default_thresholds now a) = 0
           \<and> calculate_agent_score default_thresholds now a = 85)
       \<and> calculate_team_score default_thresholds now (agents (registered_pair n1 n2))
           = (85, [(upper n1, 85), (upper n2, 85)])
       \<and> get_coherence_score (registered_pair n1 n2) now = 85"
proof -
  have ags: "agents (registered_pair n1 n2)
      = [(upper n1, new_agent (upper n1)), (upper n2, new_agent (upper n2))]"
    using assms by (simp add: registered_pair_def register_agent_def new_monitor_def Let_def)
  have team: "calculate_team_score default_thresholds now
        [(upper n1, new_agent (upper n1)), (upper n2, new_agent (upper n2))]
      = (85, [(upper n1, 85), (upper n2, 85)])"
    using assms
    by (simp add: calculate_team_score_def new_agent_score mean_of_def round1_85 Let_def)
  have th: "thresholds (registered_pair n1 n2) = default_thresholds"
    by (simp add: registered_pair_def register_agent_def new_monitor_def Let_def
          split: option.splits)
  show ?thesis
    unfolding get_coherence_score_def th ags team
    by (simp add: new_agent_parts new_agent_score score_latency_default_0
          score_activity_default_300)
qed

theorem fresh_pair_scores_85_witness:
  "upper ''forge'' \<noteq> upper ''atlas''
   \<and> calculate_team_score default_thresholds noon (agents (registered_pair ''forge'' ''atlas''))
       = (85, [(upper ''forge'', 85), (upper ''atlas'', 85)])
   \<and> get_coherence_score (registered_pair ''forge'' ''atlas'') noon = 85"
proof -
  have d: "upper ''forge'' \<noteq> upper ''atlas''"
    by code_simp
  from fresh_pair_scores_85 [OF d, of noon] d show ?thesis
    by blast
qed

lemma score_latency_range: "0 \<le> score_latency th x \<and> score_latency th x \<le> 100"
  by (simp add: score_latency_def Let_def)

lemma score_latency_mono:
  assumes "x \<le> y"
  shows "score_latency th y \<le> score_latency th x"
proof -
  let ?c = "latency_critical th"
  consider "y \<le> 0" | "0 < y" "?c \<le> y" | "0 < y" "y < ?c" "y \<le> 5" | "5 < y" "y < ?c"
    by linarith
  then show ?thesis
  proof cases
    case 1
    with assms show ?thesis by (simp add: score_latency_def)
  next
    case 2
    then have "score_latency th y = 0" by (simp add: score_latency_def)
    then show ?thesis using score_latency_range [of th x] by simp
  next
    case 3
    with assms have "score_latency th x = 100" by (simp add: score_latency_def)
    then show ?thesis using score_latency_range [of th y] by simp
  next
    case 4
    show ?thesis
    proof (cases "x \<le> 5")
      case True
      with 4 assms have "score_latency th x = 100" by (simp add: score_latency_def)
      then show ?thesis using score_latency_range [of th y] by simp
    next
      case False
      from 4 have r: "0 < ?c - 5" by simp
      from assms have "(x - 5) / (?c - 5) \<le> (y - 5) / (?c - 5)"
        using r by (simp add: divide_right_mono)
      then have "(x - 5) / (?c - 5) * 100 \<le> (y - 5) / (?c - 5) * 100"
        by (rule mult_right_mono) simp
      then have "100 - (y - 5) / (?c - 5) * 100 \<le> 100 - (x - 5) / (?c - 5) * 100"
        by linarith
      then have "max 0 (min 100 (100 - (y - 5) / (?c - 5) * 100))
          \<le> max 0 (min 100 (100 - (x - 5) / (?c - 5) * 100))"
        by (simp add: max.coboundedI2 min.coboundedI2)
      moreover from False 4 assms
      have "\<not> x \<le> 0" "\<not> ?c \<le> x" "\<not> y \<le> 0" "\<not> ?c \<le> y" "\<not> y \<le> 5"
        by simp_all
      ultimately show ?thesis using False by (simp add: score_latency_def Let_def)
    qed
  qed
qed

lemma score_latency_nonpositive: "x \<le> 0 \<Longrightarrow> score_latency th x = 100"
  by (simp add: score_latency_def)

text \<open>
  C7. For a positive critical latency threshold, \<open>score_latency\<close> never increases with
  its argument, is 100 at 0, is 0 at every argument at or above the critical threshold,
  and lies between 0 and 100. (Monotonicity and the bounds hold for every threshold,
  lemmas \<open>score_latency_mono\<close> and \<open>score_latency_range\<close>; an argument at or below 0 scores
  100, lemma \<open>score_latency_nonpositive\<close>.)
\<close>

theorem score_latency_monotone_bounded:
  assumes "0 < latency_critical th"
  shows "(\<forall>x y. x \<le> y \<longrightarrow> score_latency th y \<le> score_latency th x)
       \<and> score_latency th 0 = 100
       \<and> (\<forall>x. latency_critical th \<le> x \<longrightarrow> score_latency th x = 0)
       \<and> (\<forall>x. 0 \<le> score_latency th x \<and> score_latency th x \<le> 100)"
proof -
  have zero: "score_latency th x = 0" if "latency_critical th \<le> x" for x
  proof -
    from that assms have "\<not> x \<le> 0" by simp
    with that show ?thesis by (simp add: score_latency_def)
  qed
  show ?thesis
    using score_latency_mono [of _ _ th] score_latency_range [of th] zero
    by (simp add: score_latency_nonpositive)
qed

theorem score_latency_monotone_bounded_witness:
  "0 < latency_critical default_thresholds
   \<and> score_latency default_thresholds 40 \<le> score_latency default_thresholds 10
   \<and> score_latency default_thresholds 0 = 100
   \<and> score_latency default_thresholds 60 = 0
   \<and> 0 \<le> score_latency default_thresholds 10
   \<and> score_latency default_thresholds 10 \<le> 100"
proof -
  have h0: "0 < latency_critical default_thresholds"
    by (simp add: default_thresholds_def)
  have h1: "(10::real) \<le> 40" by simp
  have h2: "latency_critical default_thresholds \<le> 60"
    by (simp add: default_thresholds_def)
  from score_latency_monotone_bounded [OF h0] h0 h1 h2 show ?thesis
    by blast
qed


section \<open>Trend\<close>

lemma team_fold_frozen:
  "fst (foldl (\<lambda>(acc, k) (n, a).
                 let (sc, k1) = agent_score_reading th (\<lambda>k. now) k a
                 in (AList.update n sc acc, k1)) (acc0, k0) ags)
   = foldl (\<lambda>acc (n, a). AList.update n (calculate_agent_score th now a) acc) acc0 ags"
  by (induction ags arbitrary: acc0 k0) (simp_all add: agent_score_reading_def split_beta)

lemma team_score_reading_frozen:
  "fst (team_score_reading th (\<lambda>k. now) k ags) = calculate_team_score th now ags"
proof -
  define r where "r = foldl (\<lambda>(acc, k) (n, a).
                 let (sc, k1) = agent_score_reading th (\<lambda>k. now) k a
                 in (AList.update n sc acc, k1)) ([], k) ags"
  have "fst r = foldl (\<lambda>acc (n, a). AList.update n (calculate_agent_score th now a) acc) [] ags"
    unfolding r_def by (rule team_fold_frozen)
  then show ?thesis
    unfolding team_score_reading_def calculate_team_score_def r_def [symmetric]
    by (simp add: split_beta Let_def)
qed

lemma coherence_score_reading_frozen:
  "fst (coherence_score_reading m (\<lambda>k. now) k) = get_coherence_score m now"
  by (simp add: coherence_score_reading_def get_coherence_score_def split_beta Let_def
        team_score_reading_frozen)

lemma py_min_Min: "xs \<noteq> [] \<Longrightarrow> py_min xs = Inr (Min (set xs))"
proof (cases xs)
  case Nil
  then show "xs \<noteq> [] \<Longrightarrow> ?thesis" by simp
next
  case (Cons x r)
  have "foldl min x r = fold min r x"
    by (simp add: foldl_conv_fold min.commute)
  with Min.set_eq_fold [of x r] show ?thesis
    by (simp add: py_min_def Cons)
qed

lemma py_max_Max: "xs \<noteq> [] \<Longrightarrow> py_max xs = Inr (Max (set xs))"
proof (cases xs)
  case Nil
  then show "xs \<noteq> [] \<Longrightarrow> ?thesis" by simp
next
  case (Cons x r)
  have "foldl max x r = fold max r x"
    by (simp add: foldl_conv_fold max.commute)
  with Max.set_eq_fold [of x r] show ?thesis
    by (simp add: py_max_def Cons)
qed

lemma get_trend_overflow:
  "\<not> representable (cutoff_seconds (clk 0) minutes)
     \<Longrightarrow> get_trend m fl clk minutes = Inl OverflowError"
  by (simp add: get_trend_def)

text \<open>
  C8, as amended. When \<open>now\<close> minus the window is a date the library can represent, the
  qualifying snapshots are those whose timestamp is strictly later than it. With fewer
  than two of them \<open>get_trend\<close> returns STABLE, change 0, their number as sample count,
  and as minimum, maximum and average the team score computed by three successive calls,
  each with its own readings of the clock; the three agree, and equal the team score at
  \<open>now\<close>, when the clock does not move between them. With two or more it returns without
  raising: the scores, in the order of the history, are split at index \<open>length div 2\<close>, so
  the second half holds the extra sample of an odd count; the change is the float
  difference of the float means of the halves, the trend is IMPROVING when the change
  exceeds 5, DEGRADING when it is below - 5, STABLE otherwise; the change returned is
  rounded to one decimal; minimum and maximum are those of all qualifying scores and the
  average is their float mean rounded to one decimal. The rounding \<open>fl\<close> of the float
  operations is arbitrary, so the statement holds for IEEE doubles in particular.
\<close>

theorem get_trend_result:
  assumes rep: "representable (cutoff_seconds (clk 0) minutes)"
  shows
   "qualifying m (clk 0) minutes
      = filter (\<lambda>s. to_seconds (clk 0) - 60 * real_of_int minutes
                      < to_seconds (CoherenceSnapshot.timestamp s)) (snapshots m)
    \<and> (length (qualifying m (clk 0) minutes) < 2 \<longrightarrow>
         (let r1 = coherence_score_reading m clk 1;
              r2 = coherence_score_reading m clk (snd r1);
              r3 = coherence_score_reading m clk (snd r2)
          in get_trend m fl clk minutes =
               Inr \<lparr>trend = ''STABLE'', change = 0,
                    samples = length (qualifying m (clk 0) minutes),
                    min_score = fst r1, max_score = fst r2, avg_score = fst r3\<rparr>))
    \<and> (length (qualifying m (clk 0) minutes) < 2 \<and> (\<forall>k. clk k = clk 0) \<longrightarrow>
         get_trend m fl clk minutes =
           Inr \<lparr>trend = ''STABLE'', change = 0,
                samples = length (qualifying m (clk 0) minutes),
                min_score = get_coherence_score m (clk 0),
                max_score = get_coherence_score m (clk 0),
                avg_score = get_coherence_score m (clk 0)\<rparr>)
    \<and> (2 \<le> length (qualifying m (clk 0) minutes) \<longrightarrow>
         (let scores = map overall_score (qualifying m (clk 0) minutes);
              first_half = take (length scores div 2) scores;
              second_half = drop (length scores div 2) scores;
              c = fl (fl (mean_of second_half) - fl (mean_of first_half))
          in get_trend m fl clk minutes =
               Inr \<lparr>trend = (if 5 < c then ''IMPROVING''
                             else if c < - 5 then ''DEGRADING'' else ''STABLE''),
                    change = fl (round1 c),
                    samples = length (qualifying m (clk 0) minutes),
                    min_score = Min (set scores), max_score = Max (set scores),
                    avg_score = fl (round1 (fl (mean_of scores)))\<rparr>
             \<and> first_half @ second_half = scores
             \<and> length second_half = length first_half + length scores mod 2))"
proof -
  let ?recent = "qualifying m (clk 0) minutes"
  let ?scores = "map overall_score ?recent"
  let ?r1 = "coherence_score_reading m clk 1"
  let ?r2 = "coherence_score_reading m clk (snd ?r1)"
  let ?r3 = "coherence_score_reading m clk (snd ?r2)"
  have q: "?recent = filter (\<lambda>s. to_seconds (clk 0) - 60 * real_of_int minutes
                      < to_seconds (CoherenceSnapshot.timestamp s)) (snapshots m)"
    by (simp add: qualifying_def cutoff_seconds_def)
  have few: "get_trend m fl clk minutes =
          Inr \<lparr>trend = ''STABLE'', change = 0, samples = length ?recent,
               min_score = fst ?r1, max_score = fst ?r2, avg_score = fst ?r3\<rparr>"
    if "length ?recent < 2"
    using that rep by (simp add: get_trend_def Let_def split_beta)
  have frozen: "get_trend m fl clk minutes =
          Inr \<lparr>trend = ''STABLE'', change = 0, samples = length ?recent,
               min_score = get_coherence_score m (clk 0),
               max_score = get_coherence_score m (clk 0),
               avg_score = get_coherence_score m (clk 0)\<rparr>"
    if "length ?recent < 2" and c: "\<forall>k. clk k = clk 0"
  proof -
    from c have "clk = (\<lambda>k. clk 0)" by (simp add: fun_eq_iff)
    then have "fst (coherence_score_reading m clk k) = get_coherence_score m (clk 0)" for k
      using coherence_score_reading_frozen [of m "clk 0" k] by simp
    with few [OF that(1)] show ?thesis by simp
  qed
  have many: "get_trend m fl clk minutes =
      Inr \<lparr>trend = classify (fl (fl (mean_of (drop (length ?scores div 2) ?scores))
                        - fl (mean_of (take (length ?scores div 2) ?scores)))),
           change = fl (round1 (fl (fl (mean_of (drop (length ?scores div 2) ?scores))
                        - fl (mean_of (take (length ?scores div 2) ?scores))))),
           samples = length ?recent,
           min_score = Min (set ?scores), max_score = Max (set ?scores),
           avg_score = fl (round1 (fl (mean_of ?scores)))\<rparr>"
    if two: "2 \<le> length ?recent"
  proof -
    from two have ne: "?scores \<noteq> []" by auto
    from two have k: "0 < length ?scores div 2" "length ?scores div 2 < length ?scores"
      by simp_all
    then have h1: "take (length ?scores div 2) ?scores \<noteq> []"
      and h2: "drop (length ?scores div 2) ?scores \<noteq> []"
      using ne by (simp_all del: length_map)
    from two have nf: "\<not> length ?recent < 2" by simp
    show ?thesis
      unfolding get_trend_def Let_def
      using nf h1 h2 ne rep
      by (simp add: float_mean_def float_round1_def err_bind_def py_min_Min py_max_Max
            del: length_map take_map drop_map)
  qed
  have halves: "length (drop (length ?scores div 2) ?scores)
      = length (take (length ?scores div 2) ?scores) + length ?scores mod 2"
    by (simp del: length_map take_map drop_map) presburger
  have c2: "2 \<le> length ?recent \<longrightarrow>
         (let scores = ?scores;
              first_half = take (length scores div 2) scores;
              second_half = drop (length scores div 2) scores;
              c = fl (fl (mean_of second_half) - fl (mean_of first_half))
          in get_trend m fl clk minutes =
               Inr \<lparr>trend = (if 5 < c then ''IMPROVING''
                             else if c < - 5 then ''DEGRADING'' else ''STABLE''),
                    change = fl (round1 c),
                    samples = length ?recent,
                    min_score = Min (set scores), max_score = Max (set scores),
                    avg_score = fl (round1 (fl (mean_of scores)))\<rparr>
             \<and> first_half @ second_half = scores
             \<and> length second_half = length first_half + length scores mod 2)"
    using many halves
    by (simp add: Let_def classify_def del: length_map take_map drop_map)
  have c1: "length ?recent < 2 \<longrightarrow>
         (let r1 = ?r1; r2 = coherence_score_reading m clk (snd r1);
              r3 = coherence_score_reading m clk (snd r2)
          in get_trend m fl clk minutes =
               Inr \<lparr>trend = ''STABLE'', change = 0, samples = length ?recent,
                    min_score = fst r1, max_score = fst r2, avg_score = fst r3\<rparr>)"
    using few by (simp add: Let_def)
  from q c1 frozen c2 show ?thesis by blast
qed

lemma rep_later: "representable (cutoff_seconds later 30)"
  by (simp add: representable_def cutoff_seconds_def to_seconds_def later_def noon_def
        days_before_year_def days_before_month_def is_leap_def)

lemma trend_monitor_qualifying:
  "qualifying trend_monitor later 30 = [snap noon 70, snap noon 80, snap noon 90]"
proof -
  have "cutoff_seconds later 30 < to_seconds noon"
    using ten_minutes by (simp add: cutoff_seconds_def)
  then show ?thesis
    by (simp add: qualifying_def trend_monitor_def new_monitor_def snap_def)
qed

lemma binary64_examples:
  "binary64 70 = 70" "binary64 85 = 85" "binary64 15 = 15" "binary64 80 = 80"
  by code_simp+

theorem get_trend_result_witness:
  "get_trend trend_monitor binary64 (frozen later) 30 =
     Inr \<lparr>trend = ''IMPROVING'', change = 15, samples = 3,
          min_score = 70, max_score = 90, avg_score = 80\<rparr>
   \<and> get_trend (new_monitor default_thresholds) binary64 (frozen later) 30 =
     Inr \<lparr>trend = ''STABLE'', change = 0, samples = 0,
          min_score = 100, max_score = 100, avg_score = 100\<rparr>"
proof -
  have rep: "representable (cutoff_seconds (frozen later 0) 30)"
    using rep_later by (simp add: frozen_def)
  have fz: "\<forall>k. frozen later k = frozen later 0"
    by (simp add: frozen_def)
  have r0: "qualifying (new_monitor default_thresholds) (frozen later 0) 30 = []"
    by (simp add: qualifying_def new_monitor_def)
  have c0: "get_coherence_score (new_monitor default_thresholds) (frozen later 0) = 100"
    by (simp add: get_coherence_score_def calculate_team_score_def new_monitor_def)
  have a: "get_trend (new_monitor default_thresholds) binary64 (frozen later) 30 =
     Inr \<lparr>trend = ''STABLE'', change = 0, samples = 0,
          min_score = 100, max_score = 100, avg_score = 100\<rparr>"
    using get_trend_result [where clk = "frozen later" and minutes = 30
        and m = "new_monitor default_thresholds" and fl = binary64, OF rep] fz
    by (simp add: r0 c0)
  have r15: "round1 15 = 15" and r80: "round1 80 = 80"
    by (simp_all add: round1_def round_half_even_def Let_def)
  have q: "qualifying trend_monitor (frozen later 0) 30 = [snap noon 70, snap noon 80, snap noon 90]"
    using trend_monitor_qualifying by (simp add: frozen_def)
  have b: "get_trend trend_monitor binary64 (frozen later) 30 =
     Inr \<lparr>trend = ''IMPROVING'', change = 15, samples = 3,
          min_score = 70, max_score = 90, avg_score = 80\<rparr>"
    using get_trend_result [where clk = "frozen later" and minutes = 30
        and m = trend_monitor and fl = binary64, OF rep]
    by (simp add: q snap_def mean_of_def r15 r80 Let_def binary64_examples)
  from a b show ?thesis by simp
qed

text \<open>
  The claim without the amendments fails for a window that reaches before year 1: on a
  monitor without snapshots, where fewer than two qualify whatever the window, a window
  of 1100000000 minutes makes the subtraction raise OverflowError.
\<close>

theorem get_trend_window_overflow:
  "snapshots (new_monitor default_thresholds) = []
   \<and> get_trend (new_monitor default_thresholds) binary64 (frozen noon) 1100000000
       = Inl OverflowError"
proof -
  have "\<not> representable (cutoff_seconds (frozen noon 0) 1100000000)"
    by (simp add: representable_def cutoff_seconds_def frozen_def to_seconds_def noon_def
          days_before_year_def days_before_month_def is_leap_def)
  then show ?thesis
    by (simp add: get_trend_overflow new_monitor_def)
qed

lemma close_values:
  "binary64 close_a = close_a" "binary64 close_b = close_b"
  "binary64 (close_b - close_a) = 703687441776641 / 140737488355328"
  "binary64 5 = 5" "close_a \<le> close_b"
  "binary64 ((close_a + close_b) / 2) = 2213097004387533 / 35184372088832"
  by code_simp+

lemma close_rounded:
  "round1 (703687441776641 / 140737488355328) = 5"
  "round1 (2213097004387533 / 35184372088832) = 629 / 10"
  by (simp_all add: round1_def round_half_even_def Let_def)

text \<open>
  The float change decides: the doubles nearest 60.4 and 65.4 differ by more than 5, and
  two snapshots with these scores give IMPROVING with a returned change of 5.0.
\<close>

lemma get_trend_close_scores:
  "get_trend close_monitor binary64 (frozen later) 30 =
     Inr \<lparr>trend = ''IMPROVING'', change = 5, samples = 2,
          min_score = close_a, max_score = close_b, avg_score = binary64 (629 / 10)\<rparr>"
proof -
  have rep: "representable (cutoff_seconds (frozen later 0) 30)"
    using rep_later by (simp add: frozen_def)
  have "cutoff_seconds later 30 < to_seconds noon"
    using ten_minutes by (simp add: cutoff_seconds_def)
  then have q: "qualifying close_monitor (frozen later 0) 30 = [snap noon close_a, snap noon close_b]"
    by (simp add: qualifying_def close_monitor_def new_monitor_def snap_def frozen_def)
  show ?thesis
    using get_trend_result [where clk = "frozen later" and minutes = 30
        and m = close_monitor and fl = binary64, OF rep]
    by (simp add: q snap_def mean_of_def Let_def close_values close_rounded)
qed

lemma race_seconds:
  "to_seconds race_t1 - to_seconds noon = 30899999 / 1000000"
  "to_seconds race_t2 - to_seconds noon = 30900001 / 1000000"
  by (simp_all add: to_seconds_def race_t1_def race_t2_def noon_def days_before_year_def
        days_before_month_def is_leap_def)

lemma race_activity:
  "score_activity default_thresholds (30899999 / 1000000) = 100 - 899999 / 2700000"
  "score_activity default_thresholds (30900001 / 1000000) = 100 - 900001 / 2700000"
  by (simp_all add: score_activity_def default_thresholds_def)

lemma race_agent_scores:
  "calculate_agent_score default_thresholds race_t1 seen_agent = 100"
  "calculate_agent_score default_thresholds race_t2 seen_agent = 999 / 10"
proof -
  have parts: "ack_rate seen_agent = 100" "avg_latency seen_agent = 0"
    "context_fidelity seen_agent = 100" "last_seen seen_agent = Some noon"
    by (simp_all add: seen_agent_def new_agent_def ack_rate_def avg_latency_def
          context_fidelity_def)
  show "calculate_agent_score default_thresholds race_t1 seen_agent = 100"
    by (simp add: calculate_agent_score_def seconds_since_def parts race_seconds
          race_activity score_latency_default_0 Let_def round1_def round_half_even_def)
  show "calculate_agent_score default_thresholds race_t2 seen_agent = 999 / 10"
    by (simp add: calculate_agent_score_def seconds_since_def parts race_seconds
          race_activity score_latency_default_0 Let_def round1_def round_half_even_def)
qed

lemma seen_reading:
  "coherence_score_reading seen_monitor clk k
     = (round1 (calculate_agent_score default_thresholds (clk k) seen_agent), Suc k)"
proof -
  have "last_seen seen_agent \<noteq> None"
    by (simp add: seen_agent_def)
  then show ?thesis
    by (simp add: coherence_score_reading_def team_score_reading_def agent_score_reading_def
          seen_monitor_def new_monitor_def mean_of_def Let_def)
qed

text \<open>
  The clock decides: for one agent seen 30.899999 seconds before the first score call and
  30.900001 seconds before the second, the minimum returned is 100.0 and the maximum and
  the average are 99.9.
\<close>

lemma get_trend_clock_race:
  "get_trend seen_monitor binary64 race_clock 30 =
     Inr \<lparr>trend = ''STABLE'', change = 0, samples = 0,
          min_score = 100, max_score = 999 / 10, avg_score = 999 / 10\<rparr>"
proof -
  have clk: "race_clock 0 = race_t1" "race_clock (Suc 0) = race_t1"
    "race_clock (Suc (Suc 0)) = race_t2" "race_clock (Suc (Suc (Suc 0))) = race_t2"
    by (simp_all add: race_clock_def)
  have rep: "representable (cutoff_seconds (race_clock 0) 30)"
    by (simp add: clk representable_def cutoff_seconds_def to_seconds_def race_t1_def noon_def
        days_before_year_def days_before_month_def is_leap_def)
  have q: "qualifying seen_monitor (race_clock 0) 30 = []"
    by (simp add: qualifying_def seen_monitor_def new_monitor_def)
  have r: "round1 100 = 100" "round1 (999 / 10) = 999 / 10"
    by (simp_all add: round1_def round_half_even_def Let_def)
  have "get_trend seen_monitor binary64 race_clock 30 =
      Inr \<lparr>trend = ''STABLE'', change = 0, samples = 0,
          min_score = fst (coherence_score_reading seen_monitor race_clock 1),
          max_score = fst (coherence_score_reading seen_monitor race_clock
             (snd (coherence_score_reading seen_monitor race_clock 1))),
          avg_score = fst (coherence_score_reading seen_monitor race_clock
             (snd (coherence_score_reading seen_monitor race_clock
               (snd (coherence_score_reading seen_monitor race_clock 1)))))\<rparr>"
    using get_trend_result [where clk = race_clock and minutes = 30
        and m = seen_monitor and fl = binary64, OF rep]
    by (simp add: q Let_def)
  then show ?thesis
    by (simp add: seen_reading clk race_agent_scores r)
qed


section \<open>Serialisation round trip\<close>

lemma length_pad: "length (pad w n) = w"
  by (induction w arbitrary: n) simp_all

lemma digit_char_props:
  "d < 10 \<Longrightarrow> is_digit (digit_char d) \<and> digit_val (digit_char d) = d"
  by (simp add: is_digit_def digit_val_def digit_char_def)

lemma pad_digits: "list_all is_digit (pad w n)"
  by (induction w arbitrary: n) (simp_all add: digit_char_props)

lemma pad_value:
  "foldl (\<lambda>acc c. 10 * acc + digit_val c) 0 (pad w n) = n mod 10 ^ w"
proof (induction w arbitrary: n)
  case 0
  then show ?case by simp
next
  case (Suc w)
  have "10 * (n div 10 mod 10 ^ w) + n mod 10 = n mod (10 * 10 ^ w)"
    by (simp add: mod_mult2_eq)
  with Suc show ?case by (simp add: digit_char_props)
qed

lemma take_digits_pad:
  "n < 10 ^ w \<Longrightarrow> take_digits w (pad w n @ r) = Some (n, r)"
  by (simp add: take_digits_def length_pad pad_digits pad_value)

lemma expect_Cons: "expect c (c # r) = Some r"
  by (simp add: expect_def)

lemma take_digits_pad_end:
  "n < 10 ^ w \<Longrightarrow> take_digits w (pad w n) = Some (n, [])"
  using take_digits_pad [of n w "[]"] by simp

lemma parse_iso_isoformat:
  assumes "valid_datetime t"
  shows "parse_iso (isoformat t) = Some t"
proof -
  from assms have b: "year t < 10 ^ 4" "month t < 10 ^ 2" "day t < 10 ^ 2" "hour t < 10 ^ 2"
    "minute t < 10 ^ 2" "second t < 10 ^ 2" "microsecond t < 10 ^ 6"
    by (simp_all add: valid_datetime_def days_in_month_def split: if_splits)
  note td = take_digits_pad [OF b(1)] take_digits_pad [OF b(2)] take_digits_pad [OF b(3)]
    take_digits_pad [OF b(4)] take_digits_pad [OF b(5)] take_digits_pad [OF b(6)]
    take_digits_pad_end [OF b(6)] take_digits_pad_end [OF b(7)]
  show ?thesis
  proof (cases "microsecond t = 0")
    case True
    then show ?thesis
      by (simp add: parse_iso_def isoformat_def td expect_Cons)
  next
    case False
    from False show ?thesis
      by (simp add: parse_iso_def isoformat_def td expect_Cons)
  qed
qed

lemma fromisoformat_isoformat:
  "valid_datetime t \<Longrightarrow> fromisoformat (isoformat t) = Inr t"
  by (simp add: fromisoformat_def parse_iso_isoformat)

lemma isoformat_nonempty: "isoformat t \<noteq> []"
proof
  assume "isoformat t = []"
  then have "length (isoformat t) = 0" by simp
  then show False by (simp add: isoformat_def length_pad)
qed

lemma as_floats_map: "as_floats (map PFloat xs) = Inr xs"
  by (induction xs) (simp_all add: err_bind_def)

lemma AgentStatus_roundtrip_slice:
  assumes "\<forall>t. last_seen a = Some t \<longrightarrow> valid_datetime t"
  shows "AgentStatus_from_dict (AgentStatus_to_dict a)
       = Inr (a\<lparr>response_latencies := py_slice_last 100 (response_latencies a)\<rparr>)"
proof -
  have seen: "read_last_seen (AgentStatus_to_dict a) = Inr (last_seen a)"
    using assms
    by (cases "last_seen a")
       (simp_all add: read_last_seen_def AgentStatus_to_dict_def get_or_def err_bind_def
          isoformat_nonempty fromisoformat_isoformat)
  show ?thesis
    unfolding AgentStatus_from_dict_def seen
    by (simp add: AgentStatus_to_dict_def getitem_def get_or_def err_bind_def as_floats_map)
qed

lemma Alert_roundtrip:
  assumes "valid_datetime (Alert.timestamp al)"
  shows "Alert_from_dict (Alert_to_dict al) = Inr al"
  using assms
  by (cases "agent al")
     (simp_all add: Alert_from_dict_def Alert_to_dict_def getitem_def get_or_def err_bind_def
        fromisoformat_isoformat mk_alert_def)

lemma Thresholds_roundtrip: "Thresholds_from_dict (Thresholds_to_dict th) = Inr th"
  by (simp add: Thresholds_from_dict_def Thresholds_to_dict_def field_or_def err_bind_def)

text \<open>
  C9, as amended. An agent record whose latency history holds at most 100 entries, an
  alert and a threshold configuration each come back unchanged, field by field, from
  \<open>to_dict\<close> followed by \<open>from_dict\<close>. (The timestamps are calendar values as Python builds
  them, which is what \<open>valid_datetime\<close> says.)
\<close>

theorem to_dict_from_dict_roundtrip:
  assumes "\<forall>t. last_seen a = Some t \<longrightarrow> valid_datetime t"
    and "length (response_latencies a) \<le> 100"
    and "valid_datetime (Alert.timestamp al)"
  shows "AgentStatus_from_dict (AgentStatus_to_dict a) = Inr a
       \<and> Alert_from_dict (Alert_to_dict al) = Inr al
       \<and> Thresholds_from_dict (Thresholds_to_dict th) = Inr th"
  using assms
  by (simp add: AgentStatus_roundtrip_slice Alert_roundtrip Thresholds_roundtrip
        slice_last_short)

theorem to_dict_from_dict_roundtrip_witness:
  "AgentStatus_from_dict (AgentStatus_to_dict forge_degraded) = Inr forge_degraded
   \<and> Alert_from_dict (Alert_to_dict alert_forge_latency) = Inr alert_forge_latency
   \<and> Thresholds_from_dict (Thresholds_to_dict default_thresholds) = Inr default_thresholds"
proof -
  have v: "valid_datetime noon"
    by (simp add: valid_datetime_def noon_def days_in_month_def)
  have h1: "\<forall>t. last_seen forge_degraded = Some t \<longrightarrow> valid_datetime t"
    by (simp add: forge_degraded_def new_agent_def v)
  have h2: "length (response_latencies forge_degraded) \<le> 100"
    by (simp add: forge_degraded_def new_agent_def)
  have h3: "valid_datetime (Alert.timestamp alert_forge_latency)"
    by (simp add: alert_forge_latency_def mk_alert_def v)
  from to_dict_from_dict_roundtrip [OF h1 h2 h3] show ?thesis .
qed

text \<open>
  Without the bound the claim fails: \<open>to_dict\<close> writes the last 100 latencies only, so a
  record holding 101 comes back with 100.
\<close>

theorem long_history_not_restored:
  "length (response_latencies long_agent) = 101
   \<and> AgentStatus_from_dict (AgentStatus_to_dict long_agent)
       = Inr (long_agent\<lparr>response_latencies := replicate 100 1\<rparr>)
   \<and> AgentStatus_from_dict (AgentStatus_to_dict long_agent) \<noteq> Inr long_agent"
proof -
  have n: "last_seen long_agent = None"
    by (simp add: long_agent_def new_agent_def)
  have l: "response_latencies long_agent = replicate 101 1"
    by (simp add: long_agent_def)
  have r: "AgentStatus_from_dict (AgentStatus_to_dict long_agent)
       = Inr (long_agent\<lparr>response_latencies := replicate 100 1\<rparr>)"
    using AgentStatus_roundtrip_slice [of long_agent]
    by (simp add: n l py_slice_last_def)
  have "response_latencies (long_agent\<lparr>response_latencies := replicate 100 1\<rparr>)
      \<noteq> response_latencies long_agent"
  proof
    assume "response_latencies (long_agent\<lparr>response_latencies := replicate 100 1\<rparr>)
      = response_latencies long_agent"
    then have "length (replicate 100 (1::real)) = length (replicate 101 (1::real))"
      by (simp add: l)
    then show False by simp
  qed
  then have "long_agent\<lparr>response_latencies := replicate 100 1\<rparr> \<noteq> long_agent"
    by (rule contrapos_nn) (erule arg_cong)
  with r l show ?thesis by simp
qed

end
